theory Spec2Isabelle
  imports Complex_Main "HOL-Library.Log_Nat"
begin

section \<open>Python numbers\<close>

text \<open>
  The form of \<^verbatim>\<open>app.py\<close> hands \<^verbatim>\<open>preprocess_input\<close> an \<^verbatim>\<open>int\<close> (the slider's
  \<^verbatim>\<open>step\<close>), a \<^verbatim>\<open>str\<close> (the select box) and five \<^verbatim>\<open>float\<close>s (the number inputs, all
  created with float bounds). A Python \<^verbatim>\<open>float\<close> is an IEEE 754 binary64 value: a finite
  value is a rational on the binary64 grid, and \<^verbatim>\<open>+\<close> and \<^verbatim>\<open>-\<close> return the exact result
  rounded to the nearest grid point, ties to the even significand, or an infinity on
  overflow; they never raise. The two zeros compare equal in Python and are one value
  here.
\<close>

datatype f64 = Fin rat | PInf | NInf | NaN

definition pow2 :: "int \<Rightarrow> rat" where
  "pow2 e = (if 0 \<le> e then 2 ^ nat e else 1 / 2 ^ nat (- e))"

text \<open>For \<open>0 < a\<close>, the exponent \<open>e\<close> with \<open>2\<^sup>e \<le> a < 2\<^sup>e\<^sup>+\<^sup>1\<close>.\<close>

definition floorlog2 :: "rat \<Rightarrow> int" where
  "floorlog2 a =
     (let (p, q) = quotient_of a; d = bitlen p - bitlen q
      in if pow2 d \<le> a then d else d - 1)"

text \<open>
  Rounding of an exact result to binary64: the magnitude is rounded to the nearest
  multiple of its grid step, a tie going to the even multiple. There are 53 significant
  bits, so the grid step of a magnitude with exponent \<open>e\<close> is \<open>2\<^sup>e\<^sup>-\<^sup>5\<^sup>2\<close>; the least
  exponent of a normal number is \<open>-1022\<close> (below it the grid step stays
  \<open>2\<^sup>-\<^sup>1\<^sup>0\<^sup>7\<^sup>4\<close>), and a result that rounds to \<open>2\<^sup>1\<^sup>0\<^sup>2\<^sup>4\<close> or beyond (exponent 1024
  and up) is an infinity.
\<close>

definition round_half_even :: "rat \<Rightarrow> int" where
  "round_half_even n =
     (let f = \<lfloor>n\<rfloor>; r = n - of_int f
      in if r < 1 / 2 then f else if 1 / 2 < r then f + 1
         else if even f then f else f + 1)"

definition f64_round :: "rat \<Rightarrow> f64" where
  "f64_round x =
     (if x = 0 then Fin 0
      else
        let a = \<bar>x\<bar>;
            e = max (floorlog2 a) (- 1022);
            u = pow2 (e - 52);
            v = of_int (round_half_even (a / u)) * u
        in if 1024 \<le> floorlog2 v then (if 0 < x then PInf else NInf)
           else Fin (if 0 < x then v else - v))"

text \<open>A rational is a binary64 value when rounding leaves it alone.\<close>

definition is_f64 :: "rat \<Rightarrow> bool" where
  "is_f64 x = (f64_round x = Fin x)"

fun fneg :: "f64 \<Rightarrow> f64" where
  "fneg (Fin x) = Fin (- x)"
| "fneg PInf = NInf"
| "fneg NInf = PInf"
| "fneg NaN = NaN"

fun fadd :: "f64 \<Rightarrow> f64 \<Rightarrow> f64" where
  "fadd (Fin x) (Fin y) = f64_round (x + y)"
| "fadd NaN _ = NaN"
| "fadd _ NaN = NaN"
| "fadd PInf NInf = NaN"
| "fadd NInf PInf = NaN"
| "fadd PInf _ = PInf"
| "fadd _ PInf = PInf"
| "fadd NInf _ = NInf"
| "fadd _ NInf = NInf"

definition fsub :: "f64 \<Rightarrow> f64 \<Rightarrow> f64" where
  "fsub x y = fadd x (fneg y)"

section \<open>The data frame\<close>

text \<open>
  \<^verbatim>\<open>pd.DataFrame(data, columns=columns)\<close> with one row: the columns in the order given,
  each holding the row's entry at its position. A cell keeps the Python type of its
  value.
\<close>

datatype cell = PyInt int | PyFloat f64

type_synonym dataframe = "(string \<times> cell) list"

definition columns :: "string list" where
  "columns = [''step'', ''type'', ''amount'', ''oldBalanceOrig'', ''newBalanceOrig'',
              ''oldBalanceDest'', ''newBalanceDest'', ''errorBalanceOrig'', ''errorBalanceDest'']"

section \<open>preprocess\_input\<close>

text \<open>
  Lines 35 to 77 of \<^verbatim>\<open>app.py\<close>. A float compares equal to the int 0 exactly when it
  is a zero, and \<^verbatim>\<open>a + b - c\<close> is \<^verbatim>\<open>(a + b) - c\<close>. The type code is an \<^verbatim>\<open>int\<close>, the
  sentinel the float \<^verbatim>\<open>-1.0\<close>.
\<close>

definition preprocess_input ::
  "int \<Rightarrow> string \<Rightarrow> f64 \<Rightarrow> f64 \<Rightarrow> f64 \<Rightarrow> f64 \<Rightarrow> f64 \<Rightarrow> dataframe" where
  "preprocess_input step type_input amount old_bal_orig new_bal_orig old_bal_dest new_bal_dest =
     (let type_val = (if type_input = ''TRANSFER'' then 0 else 1);
          (old_bal_dest_proc, new_bal_dest_proc) =
            (if old_bal_dest = Fin 0 \<and> new_bal_dest = Fin 0 \<and> amount \<noteq> Fin 0
             then (Fin (- 1), Fin (- 1))
             else (old_bal_dest, new_bal_dest));
          error_orig = fsub (fadd new_bal_orig amount) old_bal_orig;
          error_dest = fsub (fadd old_bal_dest_proc amount) new_bal_dest_proc;
          data = [PyInt step, PyInt type_val, PyFloat amount, PyFloat old_bal_orig,
                  PyFloat new_bal_orig, PyFloat old_bal_dest_proc, PyFloat new_bal_dest_proc,
                  PyFloat error_orig, PyFloat error_dest]
      in zip columns data)"

section \<open>The classifier\<close>

text \<open>
  The loaded model is used through two methods only. Each returns an array (one row of
  class probabilities per row of the frame; one label per row) or raises; an exception
  is the name of its class. The model is whatever the joblib file holds, so nothing is
  assumed about the arrays' shapes.
\<close>

datatype py_error = Exc string

record classifier =
  predict_proba :: "dataframe \<Rightarrow> py_error + f64 list list"
  predict :: "dataframe \<Rightarrow> py_error + int list"

text \<open>Reading an array at a constant index: out of bounds raises \<^verbatim>\<open>IndexError\<close>.\<close>

definition item :: "'a list \<Rightarrow> nat \<Rightarrow> py_error + 'a" where
  "item xs i = (if i < length xs then Inr (xs ! i) else Inl (Exc ''IndexError''))"

section \<open>The submit handler\<close>

text \<open>
  Lines 115 to 120 of \<^verbatim>\<open>app.py\<close>: the probability is
  \<^verbatim>\<open>model.predict_proba(input_data_df)[0][1]\<close>, then the label is
  \<^verbatim>\<open>model.predict(input_data_df)[0]\<close>. Nothing catches an exception, so the first
  one ends the request.
\<close>

definition evaluate :: "classifier \<Rightarrow> dataframe \<Rightarrow> py_error + (f64 \<times> int)" where
  "evaluate model input_data_df =
     (case predict_proba model input_data_df of
        Inl e \<Rightarrow> Inl e
      | Inr proba \<Rightarrow>
     (case item proba 0 of
        Inl e \<Rightarrow> Inl e
      | Inr row \<Rightarrow>
     (case item row 1 of
        Inl e \<Rightarrow> Inl e
      | Inr probability \<Rightarrow>
     (case predict model input_data_df of
        Inl e \<Rightarrow> Inl e
      | Inr labels \<Rightarrow>
     (case item labels 0 of
        Inl e \<Rightarrow> Inl e
      | Inr prediction \<Rightarrow> Inr (probability, prediction))))))"

text \<open>
  What the page shows. A text is the sequence of the pieces of its f-string: literal
  text, an interpolated string, or a number with its format specification
  (\<^verbatim>\<open>.2%\<close> prints a percentage, \<^verbatim>\<open>.2f\<close> two decimals, \<^verbatim>\<open>,.0f\<close> thousands
  separators and no decimals). The leading emoji of the two banners and the line
  breaks and indentation of the markdown literal are left out.
\<close>

datatype piece = Lit string | Str string | Num string cell

datatype widget =
    St_divider
  | St_error "piece list"
  | St_success "piece list"
  | St_header "piece list"
  | St_subheader "piece list"
  | St_markdown "piece list"
  | St_info "piece list"

text \<open>\<^verbatim>\<open>df[name].values[0]\<close>: the cell of a column, \<^verbatim>\<open>KeyError\<close> when there is none.\<close>

definition column_value :: "dataframe \<Rightarrow> string \<Rightarrow> py_error + cell" where
  "column_value df name =
     (case map_of df name of None \<Rightarrow> Inl (Exc ''KeyError'') | Some c \<Rightarrow> Inr c)"

text \<open>
  Lines 123 to 139: the result display, chosen by the label alone. The two cells of the
  markdown text are read while that text is built; on the frames of \<open>preprocess_input\<close>
  both columns exist, so the \<^verbatim>\<open>KeyError\<close> branches are never taken.
\<close>

definition render ::
  "string \<Rightarrow> f64 \<Rightarrow> dataframe \<Rightarrow> f64 \<Rightarrow> int \<Rightarrow> py_error + widget list" where
  "render type_input amount input_data_df probability prediction =
     (if prediction = 1 then
        (case column_value input_data_df ''errorBalanceOrig'' of
           Inl e \<Rightarrow> Inl e
         | Inr error_orig \<Rightarrow>
        (case column_value input_data_df ''errorBalanceDest'' of
           Inl e \<Rightarrow> Inl e
         | Inr error_dest \<Rightarrow>
             Inr [St_divider,
                  St_error [Lit ''FRAUD DITEMUKAN! ('', Str type_input, Lit '' sebesar Rp '',
                            Num '',.0f'' (PyFloat amount), Lit '')''],
                  St_header [Lit ''Tingkat Risiko: '', Num ''.2%'' (PyFloat probability)],
                  St_subheader [Lit ''Tindakan: Blokir Transaksi dan Lakukan Investigasi.''],
                  St_markdown [Lit ''**Indikator Utama (Error Balance):**'',
                               Lit ''* Error Origin: `'', Num ''.2f'' error_orig, Lit ''`'',
                               Lit ''* Error Destination: `'', Num ''.2f'' error_dest, Lit ''`'']]))
      else
        Inr [St_divider,
             St_success [Lit ''Transaksi DIIZINKAN. ('', Str type_input, Lit '' sebesar Rp '',
                         Num '',.0f'' (PyFloat amount), Lit '')''],
             St_header [Lit ''Tingkat Risiko: '', Num ''.2%'' (PyFloat probability)],
             St_subheader [Lit ''Tindakan: Lanjutkan Transaksi.''],
             St_info [Lit ''Risiko dianggap rendah berdasarkan pola fitur Error Balance yang normal.'']])"

text \<open>Lines 108 to 139: one press of the button.\<close>

definition submit ::
  "classifier \<Rightarrow> int \<Rightarrow> string \<Rightarrow> f64 \<Rightarrow> f64 \<Rightarrow> f64 \<Rightarrow> f64 \<Rightarrow> f64 \<Rightarrow> py_error + widget list" where
  "submit model step type_input amount old_bal_orig new_bal_orig old_bal_dest new_bal_dest =
     (let input_data_df =
            preprocess_input step type_input amount old_bal_orig new_bal_orig
              old_bal_dest new_bal_dest
      in case evaluate model input_data_df of
           Inl e \<Rightarrow> Inl e
         | Inr (probability, prediction) \<Rightarrow>
             render type_input amount input_data_df probability prediction)"

section \<open>The page and the loaded model\<close>

text \<open>
  What a call in \<^verbatim>\<open>app.py\<close> can read or change besides its arguments: the module's
  global \<^verbatim>\<open>model\<close> (line 31) and the page that the \<^verbatim>\<open>st.\<close> calls write to. A call
  takes the world it runs in and returns its result with the world it leaves.
\<close>

record world =
  loaded_model :: classifier
  page :: "widget list"

text \<open>
  Lines 35 to 77 name no global and make no \<^verbatim>\<open>st.\<close> call: the body works on its
  parameters and local variables and builds a new frame.
\<close>

definition preprocess_input_call ::
  "int \<Rightarrow> string \<Rightarrow> f64 \<Rightarrow> f64 \<Rightarrow> f64 \<Rightarrow> f64 \<Rightarrow> f64 \<Rightarrow> world \<Rightarrow> dataframe \<times> world" where
  "preprocess_input_call step type_input amount old_bal_orig new_bal_orig old_bal_dest new_bal_dest w =
     (preprocess_input step type_input amount old_bal_orig new_bal_orig old_bal_dest new_bal_dest, w)"

text \<open>
  Lines 108 to 139 in the same style: the handler calls \<open>preprocess_input\<close>, reads the
  global \<^verbatim>\<open>model\<close>, and on success writes its widgets to the page. An exception of the
  classifier comes before the first widget; the display raises on no frame of
  \<open>preprocess_input\<close>.
\<close>

definition submit_call ::
  "int \<Rightarrow> string \<Rightarrow> f64 \<Rightarrow> f64 \<Rightarrow> f64 \<Rightarrow> f64 \<Rightarrow> f64 \<Rightarrow> world \<Rightarrow> py_error option \<times> world" where
  "submit_call step type_input amount old_bal_orig new_bal_orig old_bal_dest new_bal_dest w =
     (let (input_data_df, w1) =
            preprocess_input_call step type_input amount old_bal_orig new_bal_orig
              old_bal_dest new_bal_dest w
      in case evaluate (loaded_model w1) input_data_df of
           Inl e \<Rightarrow> (Some e, w1)
         | Inr (probability, prediction) \<Rightarrow>
             (case render type_input amount input_data_df probability prediction of
                Inl e \<Rightarrow> (Some e, w1)
              | Inr widgets \<Rightarrow> (None, w1\<lparr>page := page w1 @ widgets\<rparr>)))"

section \<open>Inputs of the form and example classifiers\<close>

text \<open>
  Every number input of the form has \<^verbatim>\<open>min_value=0.0\<close>: it yields a float \<open>x\<close> with
  \<^verbatim>\<open>0.0 <= x\<close>.
\<close>

definition nonneg :: "f64 \<Rightarrow> bool" where
  "nonneg x = (case x of Fin q \<Rightarrow> 0 \<le> q | PInf \<Rightarrow> True | NInf \<Rightarrow> False | NaN \<Rightarrow> False)"


text \<open>
  Classifiers to run the handler on: one that reports a fraud probability of 0.75 and
  the label 0, one whose probability output has a single class, and one with three
  classes.
\<close>

definition lenient_model :: classifier where
  "lenient_model =
     \<lparr>predict_proba = (\<lambda>df. Inr [ [Fin (1 / 4), Fin (3 / 4)] ]), predict = (\<lambda>df. Inr [0])\<rparr>"

definition strict_model :: classifier where
  "strict_model =
     \<lparr>predict_proba = (\<lambda>df. Inr [ [Fin (3 / 4), Fin (1 / 4)] ]), predict = (\<lambda>df. Inr [1])\<rparr>"

definition one_class_model :: classifier where
  "one_class_model = \<lparr>predict_proba = (\<lambda>df. Inr [ [Fin 1] ]), predict = (\<lambda>df. Inr [0])\<rparr>"

definition three_class_model :: classifier where
  "three_class_model =
     \<lparr>predict_proba = (\<lambda>df. Inr [ [Fin (1 / 2), Fin (1 / 4), Fin (1 / 4)] ]),
      predict = (\<lambda>df. Inr [0])\<rparr>"

section \<open>Properties of binary64 rounding\<close>

text \<open>
  Powers of two, the exponent of a positive rational, and the two facts about rounding
  that the claims need: a value \<open>m \<cdot> 2\<^sup>k\<close> with fewer than 54 significant bits, an
  exponent of at least \<open>-1074\<close> and a magnitude below \<open>2\<^sup>1\<^sup>0\<^sup>2\<^sup>4\<close> is a binary64 value,
  and every binary64 value has this form.
\<close>

lemma pow2_powi: "pow2 e = 2 powi e"
  by (simp add: pow2_def power_int_def inverse_eq_divide power_one_over)

lemma pow2_pos: "0 < pow2 e"
  by (simp add: pow2_powi)

lemma pow2_add: "pow2 (a + b) = pow2 a * pow2 b"
  by (simp add: pow2_powi power_int_add)

lemma pow2_less_iff: "pow2 a < pow2 b \<longleftrightarrow> a < b"
proof
  assume "pow2 a < pow2 b"
  show "a < b"
  proof (rule ccontr)
    assume "\<not> a < b"
    then have "b \<le> a" by simp
    then have "pow2 b \<le> pow2 a"
      unfolding pow2_powi by (intro power_int_increasing) auto
    with \<open>pow2 a < pow2 b\<close> show False by simp
  qed
next
  assume "a < b"
  then show "pow2 a < pow2 b"
    unfolding pow2_powi by (intro power_int_strict_increasing) auto
qed

lemma pow2_le_iff: "pow2 a \<le> pow2 b \<longleftrightarrow> a \<le> b"
  using pow2_less_iff [of b a] by (auto simp: not_less [symmetric])

lemma pow2_of_int: "0 \<le> e \<Longrightarrow> pow2 e = of_int (2 ^ nat e)"
  by (simp add: pow2_def)

lemma floorlog2_bounds:
  assumes "0 < a"
  shows "pow2 (floorlog2 a) \<le> a" and "a < pow2 (floorlog2 a + 1)"
proof -
  obtain p q where pq: "quotient_of a = (p, q)"
    by (cases "quotient_of a")
  have q: "0 < q" using pq by (rule quotient_of_denom_pos)
  have a: "a = of_int p / of_int q" using pq by (rule quotient_of_div)
  have p: "0 < p" using assms q unfolding a by (simp add: zero_less_divide_iff)
  define bp where "bp = bitlen p"
  define bq where "bq = bitlen q"
  have bp: "2 ^ nat (bp - 1) \<le> p" "p < 2 ^ nat bp"
    using bitlen_bounds [OF p] by (simp_all add: bp_def)
  have bq: "2 ^ nat (bq - 1) \<le> q" "q < 2 ^ nat bq"
    using bitlen_bounds [OF q] by (simp_all add: bq_def)
  have bp1: "1 \<le> bp" using p bitlen_eq_zero_iff [of p] bitlen_nonneg [of p]
    by (simp add: bp_def) 
  have bq1: "1 \<le> bq" using q bitlen_eq_zero_iff [of q] bitlen_nonneg [of q]
    by (simp add: bq_def)
  have rp: "pow2 (bp - 1) \<le> of_int p" "of_int p < pow2 bp"
    using bp bp1 by (simp_all add: pow2_of_int)
  have rq: "pow2 (bq - 1) \<le> of_int q" "of_int q < pow2 bq"
    using bq bq1 by (simp_all add: pow2_of_int)
  have qpos: "(0::rat) < of_int q" using q by simp
  have upper: "a < pow2 (bp - bq + 1)"
  proof -
    have "a * of_int q = of_int p" using qpos by (simp add: a)
    also have "\<dots> < pow2 bp" by (rule rp)
    also have "\<dots> = pow2 (bp - bq + 1) * pow2 (bq - 1)"
      by (simp flip: pow2_add)
    also have "\<dots> \<le> pow2 (bp - bq + 1) * of_int q"
      using rq(1) pow2_pos [of "bp - bq + 1"] by (simp add: mult_left_mono)
    finally show ?thesis using qpos by simp
  qed
  have lower: "pow2 (bp - bq - 1) \<le> a"
  proof -
    have "pow2 (bp - bq - 1) * of_int q \<le> pow2 (bp - bq - 1) * pow2 bq"
      using rq(2) pow2_pos [of "bp - bq - 1"] by (simp add: mult_left_mono)
    also have "\<dots> = pow2 (bp - 1)"
      by (simp flip: pow2_add)
    also have "\<dots> \<le> of_int p" by (rule rp)
    also have "\<dots> = a * of_int q" using qpos by (simp add: a)
    finally show ?thesis using qpos by simp
  qed
  have fl: "floorlog2 a = (if pow2 (bp - bq) \<le> a then bp - bq else bp - bq - 1)"
    by (simp add: floorlog2_def pq bp_def bq_def)
  show "pow2 (floorlog2 a) \<le> a"
    using lower by (simp add: fl)
  show "a < pow2 (floorlog2 a + 1)"
    using upper by (simp add: fl not_le)
qed

lemma floorlog2_less:
  assumes "0 < a" and "a < pow2 k"
  shows "floorlog2 a < k"
proof -
  have "pow2 (floorlog2 a) < pow2 k"
    using floorlog2_bounds(1) [OF assms(1)] assms(2) by simp
  then show ?thesis by (simp add: pow2_less_iff)
qed


lemma f64_round_neg: "f64_round (- x) = fneg (f64_round x)"
  by (simp add: f64_round_def Let_def)

lemma round_half_even_of_int: "round_half_even (of_int z) = z"
  by (simp add: round_half_even_def)

lemma f64_round_pos:
  "0 < x \<Longrightarrow> f64_round x =
     (let u = pow2 (max (floorlog2 x) (- 1022) - 52);
          v = of_int (round_half_even (x / u)) * u
      in if 1024 \<le> floorlog2 v then PInf else Fin v)"
  by (simp add: f64_round_def Let_def)

lemma f64_round_exact:
  fixes m k :: int
  assumes m: "0 < m" "m < 2 ^ 53" and k: "- 1074 \<le> k"
    and lt: "of_int m * pow2 k < pow2 1024"
  shows "f64_round (of_int m * pow2 k) = Fin (of_int m * pow2 k)"
proof -
  define x where "x = of_int m * pow2 k"
  define e where "e = max (floorlog2 x) (- 1022)"
  have x: "0 < x" using m(1) pow2_pos [of k] by (simp add: x_def)
  have "(of_int m :: rat) < of_int (2 ^ 53)" using m(2) by (simp only: of_int_less_iff)
  then have "of_int m < pow2 53" by (simp add: pow2_def)
  then have "x < pow2 53 * pow2 k"
    using pow2_pos [of k] by (simp add: x_def)
  then have "x < pow2 (k + 53)" by (simp add: pow2_add mult.commute)
  then have "floorlog2 x < k + 53" using x by (intro floorlog2_less)
  then have e: "e \<le> k + 52" using k by (simp add: e_def)
  define j where "j = nat (k - (e - 52))"
  define z where "z = m * 2 ^ j"
  have "pow2 k = pow2 (e - 52) * pow2 (int j)"
    using e by (simp add: j_def flip: pow2_add)
  then have pk: "pow2 k = pow2 (e - 52) * of_int (2 ^ j)"
    by (simp add: pow2_def)
  have n: "x / pow2 (e - 52) = of_int z"
    using pow2_pos [of "e - 52"] by (simp add: x_def pk z_def)
  have v: "of_int z * pow2 (e - 52) = x"
    by (simp add: x_def pk z_def)
  have fl: "\<not> 1024 \<le> floorlog2 x"
    using floorlog2_less [OF x, of 1024] lt by (simp add: x_def)
  have "f64_round x = Fin x"
    by (simp add: f64_round_pos [OF x] Let_def e_def [symmetric] n round_half_even_of_int v fl)
  then show ?thesis by (simp add: x_def)
qed

lemma is_f64_grid:
  assumes "is_f64 a" and "0 < a"
  obtains m :: int where "a = of_int m * pow2 (max (floorlog2 a) (- 1022) - 52)"
proof -
  define u where "u = pow2 (max (floorlog2 a) (- 1022) - 52)"
  define m where "m = round_half_even (a / u)"
  have "f64_round a = (if 1024 \<le> floorlog2 (of_int m * u) then PInf else Fin (of_int m * u))"
    using assms(2) by (simp add: f64_round_pos Let_def u_def m_def)
  with assms(1) have "a = of_int m * u"
    by (simp add: is_f64_def split: if_splits)
  then show ?thesis using that by (simp add: u_def)
qed


lemma is_f64_zero: "is_f64 0"
  by (simp add: is_f64_def f64_round_def)

lemma is_f64_neg: "is_f64 x \<Longrightarrow> is_f64 (- x)"
  by (simp add: is_f64_def f64_round_neg)

lemma floorlog2_ge:
  assumes "pow2 k \<le> a"
  shows "k \<le> floorlog2 a"
proof -
  have a: "0 < a" using pow2_pos [of k] assms by simp
  have "pow2 k < pow2 (floorlog2 a + 1)"
    using assms floorlog2_bounds(2) [OF a] by simp
  then show ?thesis by (simp add: pow2_less_iff)
qed

lemma is_f64_pred:
  assumes a: "is_f64 a" and lo: "1 / 2 \<le> a" and hi: "a \<le> 2 ^ 53"
  shows "is_f64 (a - 1)"
proof -
  define e where "e = floorlog2 a"
  have pos: "0 < a" using lo by simp
  have "pow2 (- 1) \<le> a" using lo by (simp add: pow2_def)
  then have e_lo: "- 1 \<le> e" unfolding e_def by (rule floorlog2_ge)
  have "pow2 e \<le> pow2 53"
    using floorlog2_bounds(1) [OF pos] hi by (simp add: e_def pow2_def)
  then have e_hi: "e \<le> 53" by (simp add: pow2_le_iff)
  from a pos obtain m :: int where "a = of_int m * pow2 (max (floorlog2 a) (- 1022) - 52)"
    by (rule is_f64_grid)
  then have am: "a = of_int m * pow2 (e - 52)"
    using e_lo by (simp add: e_def max_def)
  have m_pos: "0 < m"
    using pos pow2_pos [of "e - 52"] unfolding am by (simp add: zero_less_mult_iff)
  have "a < pow2 (e + 1)"
    using floorlog2_bounds(2) [OF pos] by (simp add: e_def)
  also have "pow2 (e + 1) = pow2 (53 + (e - 52))"
    by (rule arg_cong [where f = pow2]) simp
  also have "\<dots> = pow2 53 * pow2 (e - 52)"
    by (rule pow2_add)
  finally have "of_int m * pow2 (e - 52) < pow2 53 * pow2 (e - 52)"
    by (simp only: am [symmetric])
  then have "(of_int m :: rat) < pow2 53"
    using pow2_pos [of "e - 52"] by simp
  then have "(of_int m :: rat) < of_int (2 ^ 53)" by (simp add: pow2_def)
  then have m_hi: "m < 2 ^ 53" by (simp only: of_int_less_iff)
  have big: "(2::rat) ^ 53 < pow2 1024" by (simp add: pow2_def)
  consider "a = 1" | "a < 1" | "1 < a" by linarith
  then show ?thesis
  proof cases
    case 1
    then show ?thesis by (simp add: is_f64_zero)
  next
    case 2
    then have "e < 0" using floorlog2_less [OF pos, of 0] by (simp add: e_def pow2_def)
    with e_lo have e: "e = - 1" by simp
    have one: "(1::rat) = of_int (2 ^ 53) * pow2 (- 53)" by (simp add: pow2_def)
    have "1 - a = of_int (2 ^ 53 - m) * pow2 (- 53)"
      by (subst one) (simp add: am e algebra_simps)
    moreover have "f64_round (of_int (2 ^ 53 - m) * pow2 (- 53)) = Fin (of_int (2 ^ 53 - m) * pow2 (- 53))"
    proof (rule f64_round_exact)
      show "0 < 2 ^ 53 - m" using m_hi by simp
      show "2 ^ 53 - m < 2 ^ 53" using m_pos by simp
      show "- 1074 \<le> (- 53 :: int)" by simp
      have "of_int (2 ^ 53 - m) * pow2 (- 53) = 1 - a"
        by (subst one) (simp add: am e algebra_simps)
      also have "\<dots> < 2 ^ 53" using pos by simp
      finally show "of_int (2 ^ 53 - m) * pow2 (- 53) < pow2 1024" using big by simp
    qed
    ultimately have "is_f64 (1 - a)" by (simp add: is_f64_def)
    then have "is_f64 (- (1 - a))" by (rule is_f64_neg)
    then show ?thesis by simp
  next
    case 3
    have "pow2 0 < pow2 (e + 1)"
      using 3 floorlog2_bounds(2) [OF pos] by (simp add: e_def pow2_def)
    then have e0: "0 \<le> e" by (simp add: pow2_less_iff)
    show ?thesis
    proof (cases "e = 53")
      case True
      have "pow2 53 \<le> a" using floorlog2_bounds(1) [OF pos] by (simp add: e_def [symmetric] True)
      with hi have a53: "a = 2 ^ 53" by (simp add: pow2_def)
      have "f64_round (of_int (2 ^ 53 - 1) * pow2 0) = Fin (of_int (2 ^ 53 - 1) * pow2 0)"
      proof (rule f64_round_exact)
        show "of_int (2 ^ 53 - 1) * pow2 0 < pow2 1024" using big by (simp add: pow2_def)
      qed simp_all
      then show ?thesis by (simp add: is_f64_def a53 pow2_def)
    next
      case False
      with e_hi have e52: "e \<le> 52" by simp
      define j where "j = nat (52 - e)"
      have "pow2 (int j) * pow2 (e - 52) = pow2 0"
        using e52 by (simp add: j_def flip: pow2_add)
      then have one: "(1::rat) = of_int (2 ^ j) * pow2 (e - 52)"
        by (simp add: pow2_def)
      have eq: "a - 1 = of_int (m - 2 ^ j) * pow2 (e - 52)"
        by (subst one) (simp add: am algebra_simps)
      have "f64_round (of_int (m - 2 ^ j) * pow2 (e - 52)) = Fin (of_int (m - 2 ^ j) * pow2 (e - 52))"
      proof (rule f64_round_exact)
        have "0 < a - 1" using 3 by simp
        then have "0 < of_int (m - 2 ^ j) * pow2 (e - 52)"
          by (simp only: eq)
        then show "0 < m - 2 ^ j"
          using pow2_pos [of "e - 52"] by (simp add: zero_less_mult_iff)
        have "(0::int) < 2 ^ j" by simp
        then show "m - 2 ^ j < 2 ^ 53" using m_hi by linarith
        show "- 1074 \<le> e - 52" using e0 by simp
        have "a - 1 < 2 ^ 53" using hi by simp
        then have "of_int (m - 2 ^ j) * pow2 (e - 52) < 2 ^ 53"
          by (simp only: eq)
        then show "of_int (m - 2 ^ j) * pow2 (e - 52) < pow2 1024" using big by simp
      qed
      then show ?thesis by (simp add: is_f64_def eq)
    qed
  qed
qed


lemma round_half_even_error: "\<bar>of_int (round_half_even n) - n\<bar> \<le> 1 / 2"
proof -
  have "of_int \<lfloor>n\<rfloor> \<le> n" "n < of_int \<lfloor>n\<rfloor> + 1" by linarith+
  then show ?thesis by (auto simp add: round_half_even_def Let_def)
qed

lemma round_half_even_tie:
  "n - of_int \<lfloor>n\<rfloor> = 1 / 2 \<Longrightarrow> even (round_half_even n)"
  by (simp add: round_half_even_def Let_def)

lemma round_half_even_nonneg: "0 \<le> n \<Longrightarrow> 0 \<le> round_half_even n"
proof -
  assume "0 \<le> n"
  then have "0 \<le> \<lfloor>n\<rfloor>" by simp
  then show ?thesis by (auto simp add: round_half_even_def Let_def)
qed

lemma round_half_even_le:
  assumes "n < of_int N"
  shows "round_half_even n \<le> N"
proof -
  have "\<lfloor>n\<rfloor> < N" using assms by (simp add: floor_less_iff)
  then show ?thesis by (auto simp add: round_half_even_def Let_def)
qed

lemma f64_round_is_f64_pos:
  assumes x: "0 < x" and r: "f64_round x = Fin y"
  shows "is_f64 y"
proof -
  define e where "e = max (floorlog2 x) (- 1022)"
  define u where "u = pow2 (e - 52)"
  define m where "m = round_half_even (x / u)"
  have u: "0 < u" by (simp add: u_def pow2_pos)
  have "f64_round x = (if 1024 \<le> floorlog2 (of_int m * u) then PInf else Fin (of_int m * u))"
    using x by (simp add: f64_round_pos Let_def u_def m_def e_def)
  with r have y: "y = of_int m * u" and fl: "floorlog2 y < 1024"
    by (auto split: if_splits)
  have m0: "0 \<le> m"
    unfolding m_def using x u by (intro round_half_even_nonneg) simp
  have "x < pow2 (floorlog2 x + 1)" using x by (rule floorlog2_bounds)
  also have "\<dots> \<le> pow2 (e + 1)" by (simp add: pow2_le_iff e_def)
  also have "pow2 (e + 1) = pow2 (53 + (e - 52))"
    by (rule arg_cong [where f = pow2]) simp
  also have "\<dots> = pow2 53 * u" unfolding u_def by (rule pow2_add)
  finally have "x / u < pow2 53" using u by (simp add: pos_divide_less_eq)
  then have "x / u < of_int (2 ^ 53)" by (simp add: pow2_def)
  then have m53: "m \<le> 2 ^ 53" unfolding m_def by (rule round_half_even_le)
  have k: "- 1074 \<le> e - 52" by (simp add: e_def)
  have ylt: "0 < y \<Longrightarrow> y < pow2 1024"
  proof -
    assume "0 < y"
    then have "y < pow2 (floorlog2 y + 1)" by (rule floorlog2_bounds)
    also have "\<dots> \<le> pow2 1024" using fl by (simp add: pow2_le_iff)
    finally show ?thesis .
  qed
  consider "m = 0" | "0 < m" "m < 2 ^ 53" | "m = 2 ^ 53" using m0 m53 by linarith
  then show ?thesis
  proof cases
    case 1
    then show ?thesis by (simp add: y is_f64_zero)
  next
    case 2
    have "0 < y" using 2(1) u by (simp add: y)
    then have "of_int m * pow2 (e - 52) < pow2 1024" using ylt by (simp add: y u_def)
    with 2 k have "f64_round (of_int m * pow2 (e - 52)) = Fin (of_int m * pow2 (e - 52))"
      by (intro f64_round_exact)
    then show ?thesis by (simp add: is_f64_def y u_def)
  next
    case 3
    have "pow2 (e - 51) = pow2 (1 + (e - 52))"
      by (rule arg_cong [where f = pow2]) simp
    also have "\<dots> = pow2 1 * pow2 (e - 52)" by (rule pow2_add)
    also have "\<dots> = 2 * u" by (simp add: u_def pow2_def [of 1])
    finally have y2: "y = of_int (2 ^ 52) * pow2 (e - 51)" by (simp add: y 3)
    have "0 < y" using u by (simp add: y 3)
    then have "of_int (2 ^ 52) * pow2 (e - 51) < pow2 1024" using ylt by (simp only: y2)
    moreover have "- 1074 \<le> e - 51" using k by simp
    ultimately have "f64_round (of_int (2 ^ 52) * pow2 (e - 51)) = Fin (of_int (2 ^ 52) * pow2 (e - 51))"
      by (intro f64_round_exact) simp_all
    then show ?thesis by (simp only: is_f64_def y2)
  qed
qed

lemma f64_round_is_f64:
  assumes "f64_round x = Fin y"
  shows "is_f64 y"
proof -
  consider "x = 0" | "0 < x" | "x < 0" by linarith
  then show ?thesis
  proof cases
    case 1
    with assms show ?thesis by (simp add: f64_round_def is_f64_zero)
  next
    case 2
    then show ?thesis using assms by (rule f64_round_is_f64_pos)
  next
    case 3
    have "f64_round (- x) = fneg (Fin y)" by (simp add: f64_round_neg assms)
    then have "f64_round (- x) = Fin (- y)" by simp
    with 3 have "is_f64 (- y)" by (intro f64_round_is_f64_pos [of "- x"]) simp_all
    then have "is_f64 (- (- y))" by (rule is_f64_neg)
    then show ?thesis by simp
  qed
qed

text \<open>
  The rounded value lies within half a grid step of the exact one. With
  \<open>f64_round_is_f64\<close> (it lies on the grid), \<open>f64_round_exact\<close> (grid points are not
  moved) and \<open>round_half_even_tie\<close> this is rounding to nearest, ties to even.
\<close>

lemma f64_round_error:
  assumes x: "0 < x" and r: "f64_round x = Fin y"
  shows "\<bar>y - x\<bar> \<le> pow2 (max (floorlog2 x) (- 1022) - 52) / 2"
proof -
  define u where "u = pow2 (max (floorlog2 x) (- 1022) - 52)"
  define m where "m = round_half_even (x / u)"
  have u: "0 < u" by (simp add: u_def pow2_pos)
  have "f64_round x = (if 1024 \<le> floorlog2 (of_int m * u) then PInf else Fin (of_int m * u))"
    using x by (simp add: f64_round_pos Let_def u_def m_def)
  with r have y: "y = of_int m * u"
    by (auto split: if_splits)
  have "y - x = (of_int m - x / u) * u"
    using u by (simp add: y algebra_simps)
  then have "\<bar>y - x\<bar> = \<bar>of_int m - x / u\<bar> * u"
    using u by (simp add: abs_mult)
  also have "\<dots> \<le> 1 / 2 * u"
    using round_half_even_error [of "x / u"] u unfolding m_def
    by (intro mult_right_mono) simp_all
  finally show ?thesis by (simp add: u_def)
qed





section \<open>The feature frame\<close>

text \<open>The frame that \<open>preprocess_input\<close> returns, written out column by column.\<close>

lemma preprocess_input_frame:
  "preprocess_input step type_input amount old_bal_orig new_bal_orig old_bal_dest new_bal_dest =
     [(''step'', PyInt step),
      (''type'', PyInt (if type_input = ''TRANSFER'' then 0 else 1)),
      (''amount'', PyFloat amount),
      (''oldBalanceOrig'', PyFloat old_bal_orig),
      (''newBalanceOrig'', PyFloat new_bal_orig),
      (''oldBalanceDest'', PyFloat
         (if old_bal_dest = Fin 0 \<and> new_bal_dest = Fin 0 \<and> amount \<noteq> Fin 0
          then Fin (- 1) else old_bal_dest)),
      (''newBalanceDest'', PyFloat
         (if old_bal_dest = Fin 0 \<and> new_bal_dest = Fin 0 \<and> amount \<noteq> Fin 0
          then Fin (- 1) else new_bal_dest)),
      (''errorBalanceOrig'', PyFloat (fsub (fadd new_bal_orig amount) old_bal_orig)),
      (''errorBalanceDest'', PyFloat
         (if old_bal_dest = Fin 0 \<and> new_bal_dest = Fin 0 \<and> amount \<noteq> Fin 0
          then fsub (fadd (Fin (- 1)) amount) (Fin (- 1))
          else fsub (fadd old_bal_dest amount) new_bal_dest))]"
  by (simp add: preprocess_input_def columns_def)

text \<open>The whole numbers of the spec's scenarios are binary64 values.\<close>

lemma f64_round_whole_cases:
  "f64_round 0 = Fin 0" "f64_round 99 = Fin 99" "f64_round 100 = Fin 100"
  "f64_round 49999 = Fin 49999" "f64_round 50000 = Fin 50000" "f64_round 100000 = Fin 100000"
  by code_simp+

text \<open>
  C1, as amended. For step 1, type TRANSFER, amount 50000, sender 100000 to 50000 and
  receiver 0 to 0 the imputation triggers and the frame holds, in column order,
  1, 0, 50000, 100000, 50000, -1, -1, 0, 50000: the last entry, errorBalanceDest, is
  \<open>-1 + 50000 - (-1) = 50000\<close>.
\<close>

theorem scenario2_vector:
  "preprocess_input 1 ''TRANSFER'' (Fin 50000) (Fin 100000) (Fin 50000) (Fin 0) (Fin 0) =
     [(''step'', PyInt 1), (''type'', PyInt 0), (''amount'', PyFloat (Fin 50000)),
      (''oldBalanceOrig'', PyFloat (Fin 100000)), (''newBalanceOrig'', PyFloat (Fin 50000)),
      (''oldBalanceDest'', PyFloat (Fin (- 1))), (''newBalanceDest'', PyFloat (Fin (- 1))),
      (''errorBalanceOrig'', PyFloat (Fin 0)), (''errorBalanceDest'', PyFloat (Fin 50000))]"
  by (simp add: preprocess_input_frame fsub_def f64_round_whole_cases)

text \<open>
  C1 as the spec states it fails on that input: the frame is not the vector ending in
  50051, and its errorBalanceDest is not 50002 either.
\<close>

theorem scenario2_vector_counterexample:
  "map snd (preprocess_input 1 ''TRANSFER'' (Fin 50000) (Fin 100000) (Fin 50000) (Fin 0) (Fin 0))
     \<noteq> [PyInt 1, PyInt 0, PyFloat (Fin 50000), PyFloat (Fin 100000), PyFloat (Fin 50000),
         PyFloat (Fin (- 1)), PyFloat (Fin (- 1)), PyFloat (Fin 0), PyFloat (Fin 50051)]
   \<and> map_of (preprocess_input 1 ''TRANSFER'' (Fin 50000) (Fin 100000) (Fin 50000) (Fin 0) (Fin 0))
       ''errorBalanceDest'' \<noteq> Some (PyFloat (Fin 50002))"
  by (simp add: preprocess_input_frame fsub_def f64_round_whole_cases)

text \<open>
  C2, as amended. With receiver balances 0 and 0 and amount 100, whatever the other
  fields, both receiver columns hold -1.0 and errorBalanceDest is
  \<open>-1.0 + 100 - (-1.0) = 100.0\<close>; with amount 0 the imputation does not trigger, both
  receiver columns hold 0 and errorBalanceDest is 0.
\<close>

theorem imputation_gating:
  "(let df = preprocess_input step type_input (Fin 100) old_bal_orig new_bal_orig (Fin 0) (Fin 0)
    in map_of df ''oldBalanceDest'' = Some (PyFloat (Fin (- 1)))
     \<and> map_of df ''newBalanceDest'' = Some (PyFloat (Fin (- 1)))
     \<and> map_of df ''errorBalanceDest'' = Some (PyFloat (Fin 100)))
   \<and> (let df = preprocess_input step type_input (Fin 0) old_bal_orig new_bal_orig (Fin 0) (Fin 0)
    in map_of df ''oldBalanceDest'' = Some (PyFloat (Fin 0))
     \<and> map_of df ''newBalanceDest'' = Some (PyFloat (Fin 0))
     \<and> map_of df ''errorBalanceDest'' = Some (PyFloat (Fin 0)))"
  by (simp add: preprocess_input_frame fsub_def f64_round_whole_cases)

text \<open>
  C2 as the spec states it fails: with receiver balances 0 and 0 and amount 100,
  errorBalanceDest is not 102.0.
\<close>

theorem imputation_gating_counterexample:
  "map_of (preprocess_input 1 ''TRANSFER'' (Fin 100) (Fin 100000) (Fin 50000) (Fin 0) (Fin 0))
     ''errorBalanceDest'' \<noteq> Some (PyFloat (Fin 102))"
  by (simp add: preprocess_input_frame fsub_def f64_round_whole_cases)





text \<open>
  C4. For every input, when \<open>old_bal_dest == 0 and new_bal_dest == 0 and amount != 0\<close>
  both receiver columns of the frame hold the sentinel -1.0, and in every other case
  they hold the receiver balances as given. For receiver balances that the form can
  produce (not below zero), both columns hold -1.0 if and only if the condition holds.
\<close>

theorem receiver_imputation:
  "(let df = preprocess_input step type_input amount old_bal_orig new_bal_orig
               old_bal_dest new_bal_dest;
        triggers = (old_bal_dest = Fin 0 \<and> new_bal_dest = Fin 0 \<and> amount \<noteq> Fin 0);
        both_sentinel = (map_of df ''oldBalanceDest'' = Some (PyFloat (Fin (- 1)))
                       \<and> map_of df ''newBalanceDest'' = Some (PyFloat (Fin (- 1))))
    in (triggers \<longrightarrow> both_sentinel)
     \<and> (\<not> triggers \<longrightarrow>
           map_of df ''oldBalanceDest'' = Some (PyFloat old_bal_dest)
         \<and> map_of df ''newBalanceDest'' = Some (PyFloat new_bal_dest))
     \<and> (nonneg old_bal_dest \<and> nonneg new_bal_dest \<longrightarrow> (both_sentinel \<longleftrightarrow> triggers)))"
  by (auto simp add: preprocess_input_frame Let_def nonneg_def)

text \<open>
  Both cases at work: receiver 0 to 0 with amount 50000 (the condition holds), and
  receiver 0 to 50000 (it does not).
\<close>

theorem receiver_imputation_witness:
  "nonneg (Fin 0) \<and> nonneg (Fin 50000)
   \<and> map_of (preprocess_input 1 ''TRANSFER'' (Fin 50000) (Fin 100000) (Fin 50000) (Fin 0) (Fin 0))
       ''oldBalanceDest'' = Some (PyFloat (Fin (- 1)))
   \<and> map_of (preprocess_input 1 ''TRANSFER'' (Fin 50000) (Fin 100000) (Fin 50000) (Fin 0) (Fin 0))
       ''newBalanceDest'' = Some (PyFloat (Fin (- 1)))
   \<and> map_of (preprocess_input 1 ''TRANSFER'' (Fin 50000) (Fin 100000) (Fin 50000) (Fin 0) (Fin 50000))
       ''oldBalanceDest'' = Some (PyFloat (Fin 0))
   \<and> map_of (preprocess_input 1 ''TRANSFER'' (Fin 50000) (Fin 100000) (Fin 50000) (Fin 0) (Fin 50000))
       ''newBalanceDest'' = Some (PyFloat (Fin 50000))"
  using receiver_imputation [of 1 "''TRANSFER''" "Fin 50000" "Fin 100000" "Fin 50000" "Fin 0" "Fin 0"]
        receiver_imputation [of 1 "''TRANSFER''" "Fin 50000" "Fin 100000" "Fin 50000" "Fin 0" "Fin 50000"]
  by (simp add: Let_def nonneg_def)

text \<open>
  C5. The type column holds 0 for the type \<^verbatim>\<open>TRANSFER\<close> and 1 for every other string,
  \<^verbatim>\<open>CASH_OUT\<close> among them.
\<close>

theorem type_encoding:
  "map_of (preprocess_input step ''TRANSFER'' amount old_bal_orig new_bal_orig old_bal_dest new_bal_dest)
     ''type'' = Some (PyInt 0)
   \<and> map_of (preprocess_input step ''CASH_OUT'' amount old_bal_orig new_bal_orig old_bal_dest new_bal_dest)
     ''type'' = Some (PyInt 1)
   \<and> (type_input \<noteq> ''TRANSFER'' \<longrightarrow>
        map_of (preprocess_input step type_input amount old_bal_orig new_bal_orig old_bal_dest new_bal_dest)
          ''type'' = Some (PyInt 1))"
  by (simp add: preprocess_input_frame)

text \<open>A type outside the select box's two options is encoded as 1.\<close>

theorem type_encoding_witness:
  "''PAYMENT'' \<noteq> ''TRANSFER''
   \<and> map_of (preprocess_input 1 ''PAYMENT'' (Fin 50000) (Fin 100000) (Fin 50000) (Fin 0) (Fin 50000))
       ''type'' = Some (PyInt 1)
   \<and> map_of (preprocess_input 1 ''TRANSFER'' (Fin 50000) (Fin 100000) (Fin 50000) (Fin 0) (Fin 50000))
       ''type'' = Some (PyInt 0)"
  using type_encoding [of 1 "Fin 50000" "Fin 100000" "Fin 50000" "Fin 0" "Fin 50000" "''PAYMENT''"]
  by simp

text \<open>
  C6. For every input the frame has exactly nine columns, named and ordered step, type,
  amount, oldBalanceOrig, newBalanceOrig, oldBalanceDest, newBalanceDest,
  errorBalanceOrig, errorBalanceDest (the spec's timeStep, transactionTypeCode, amount,
  senderBalanceBefore, senderBalanceAfter, receiverBalanceBeforeAdj,
  receiverBalanceAfterAdj, errorBalanceSender, errorBalanceReceiver), holding the step,
  the type code, the amount, the sender balances, the adjusted receiver balances and the
  two discrepancies. For step 1, TRANSFER, amount 50000, sender 100000 to 50000 and
  receiver 0 to 50000 no imputation happens and the row is
  1, 0, 50000, 100000, 50000, 0, 50000, 0, 0.
\<close>

theorem feature_vector_order:
  "(let df = preprocess_input step type_input amount old_bal_orig new_bal_orig
               old_bal_dest new_bal_dest;
        triggers = (old_bal_dest = Fin 0 \<and> new_bal_dest = Fin 0 \<and> amount \<noteq> Fin 0);
        old_bal_dest_proc = (if triggers then Fin (- 1) else old_bal_dest);
        new_bal_dest_proc = (if triggers then Fin (- 1) else new_bal_dest)
    in length df = 9
     \<and> map fst df =
         [''step'', ''type'', ''amount'', ''oldBalanceOrig'', ''newBalanceOrig'',
          ''oldBalanceDest'', ''newBalanceDest'', ''errorBalanceOrig'', ''errorBalanceDest'']
     \<and> map snd df =
         [PyInt step, PyInt (if type_input = ''TRANSFER'' then 0 else 1), PyFloat amount,
          PyFloat old_bal_orig, PyFloat new_bal_orig,
          PyFloat old_bal_dest_proc, PyFloat new_bal_dest_proc,
          PyFloat (fsub (fadd new_bal_orig amount) old_bal_orig),
          PyFloat (fsub (fadd old_bal_dest_proc amount) new_bal_dest_proc)])
   \<and> map snd (preprocess_input 1 ''TRANSFER'' (Fin 50000) (Fin 100000) (Fin 50000)
               (Fin 0) (Fin 50000)) =
       [PyInt 1, PyInt 0, PyFloat (Fin 50000), PyFloat (Fin 100000), PyFloat (Fin 50000),
        PyFloat (Fin 0), PyFloat (Fin 50000), PyFloat (Fin 0), PyFloat (Fin 0)]"
  by (simp add: preprocess_input_frame Let_def fsub_def f64_round_whole_cases)

section \<open>The risk evaluation and its display\<close>

text \<open>
  C7, as amended. The evaluation succeeds with a probability and a label exactly when
  \<open>predict_proba\<close> returns an array with a first row of at least two entries, the
  probability being that row's entry at index 1, and \<open>predict\<close>, called separately,
  returns a non-empty array, the label being its first entry: the label comes from
  \<open>predict\<close> alone and is never computed from the probability. The code makes no
  check that the output has two classes and knows no SchemaError: when the probability
  array is empty or its first row has fewer than two entries, the request fails with
  Python's IndexError (and a row of more than two entries is accepted).
\<close>

theorem risk_evaluator:
  "(evaluate model df = Inr (probability, prediction) \<longleftrightarrow>
      (\<exists>proba labels.
          predict_proba model df = Inr proba
        \<and> 0 < length proba \<and> 1 < length (proba ! 0) \<and> probability = proba ! 0 ! 1
        \<and> predict model df = Inr labels
        \<and> 0 < length labels \<and> prediction = labels ! 0))
   \<and> (\<forall>proba. predict_proba model df = Inr proba \<and> (proba = [] \<or> length (proba ! 0) < 2)
         \<longrightarrow> evaluate model df = Inl (Exc ''IndexError''))"
  by (auto simp add: evaluate_def item_def split: sum.splits)

text \<open>
  A classifier whose probability is 0.75 and whose label is 0 is scored as (0.75, 0); a
  single-class probability output ends in IndexError.
\<close>

theorem risk_evaluator_witness:
  "evaluate lenient_model
     (preprocess_input 1 ''TRANSFER'' (Fin 50000) (Fin 100000) (Fin 50000) (Fin 0) (Fin 0))
     = Inr (Fin (3 / 4), 0)
   \<and> evaluate one_class_model
     (preprocess_input 1 ''TRANSFER'' (Fin 50000) (Fin 100000) (Fin 50000) (Fin 0) (Fin 0))
     = Inl (Exc ''IndexError'')"
  using risk_evaluator [of lenient_model
          "preprocess_input 1 ''TRANSFER'' (Fin 50000) (Fin 100000) (Fin 50000) (Fin 0) (Fin 0)"
          "Fin (3 / 4)" 0]
        risk_evaluator [of one_class_model
          "preprocess_input 1 ''TRANSFER'' (Fin 50000) (Fin 100000) (Fin 50000) (Fin 0) (Fin 0)"]
  by (simp add: lenient_model_def one_class_model_def)

text \<open>
  C7 as the spec states it fails: a single-class probability output does not end in a
  SchemaError, and a three-class output does not fail at all.
\<close>

theorem risk_evaluator_counterexample:
  "evaluate one_class_model
     (preprocess_input 1 ''TRANSFER'' (Fin 50000) (Fin 100000) (Fin 50000) (Fin 0) (Fin 0))
     \<noteq> Inl (Exc ''SchemaError'')
   \<and> evaluate three_class_model
     (preprocess_input 1 ''TRANSFER'' (Fin 50000) (Fin 100000) (Fin 50000) (Fin 0) (Fin 0))
     = Inr (Fin (1 / 4), 0)"
  by (simp add: evaluate_def item_def one_class_model_def three_class_model_def)

text \<open>
  C8. For every scored transaction, the label 1 shows the recommendation to block the
  transaction and investigate (\<^verbatim>\<open>Tindakan: Blokir Transaksi dan Lakukan Investigasi.\<close>)
  and every other label, 0 among them, the recommendation to let it proceed
  (\<^verbatim>\<open>Tindakan: Lanjutkan Transaksi.\<close>). The two error balances of the frame are shown,
  with two decimals, under the label 1 and not otherwise; the probability is shown with
  the percent format under either label.
\<close>

theorem decision_display:
  "evaluate model
     (preprocess_input step type_input amount old_bal_orig new_bal_orig old_bal_dest new_bal_dest)
     = Inr (probability, prediction) \<Longrightarrow>
   (\<exists>error_orig error_dest.
      map_of (preprocess_input step type_input amount old_bal_orig new_bal_orig
                old_bal_dest new_bal_dest) ''errorBalanceOrig'' = Some error_orig
    \<and> map_of (preprocess_input step type_input amount old_bal_orig new_bal_orig
                old_bal_dest new_bal_dest) ''errorBalanceDest'' = Some error_dest
    \<and> submit model step type_input amount old_bal_orig new_bal_orig old_bal_dest new_bal_dest =
       Inr (if prediction = 1 then
              [St_divider,
               St_error [Lit ''FRAUD DITEMUKAN! ('', Str type_input, Lit '' sebesar Rp '',
                         Num '',.0f'' (PyFloat amount), Lit '')''],
               St_header [Lit ''Tingkat Risiko: '', Num ''.2%'' (PyFloat probability)],
               St_subheader [Lit ''Tindakan: Blokir Transaksi dan Lakukan Investigasi.''],
               St_markdown [Lit ''**Indikator Utama (Error Balance):**'',
                            Lit ''* Error Origin: `'', Num ''.2f'' error_orig, Lit ''`'',
                            Lit ''* Error Destination: `'', Num ''.2f'' error_dest, Lit ''`'']]
            else
              [St_divider,
               St_success [Lit ''Transaksi DIIZINKAN. ('', Str type_input, Lit '' sebesar Rp '',
                           Num '',.0f'' (PyFloat amount), Lit '')''],
               St_header [Lit ''Tingkat Risiko: '', Num ''.2%'' (PyFloat probability)],
               St_subheader [Lit ''Tindakan: Lanjutkan Transaksi.''],
               St_info [Lit ''Risiko dianggap rendah berdasarkan pola fitur Error Balance yang normal.'']]))"
  by (simp add: submit_def render_def column_value_def preprocess_input_frame)

text \<open>The display under the label 1 and under the label 0, on the same transaction.\<close>

lemma evaluate_examples:
  "evaluate strict_model df = Inr (Fin (1 / 4), 1)"
  "evaluate lenient_model df = Inr (Fin (3 / 4), 0)"
  by (simp_all add: evaluate_def item_def strict_model_def lenient_model_def)

theorem decision_display_witness:
  "evaluate strict_model
     (preprocess_input 1 ''TRANSFER'' (Fin 50000) (Fin 100000) (Fin 50000) (Fin 0) (Fin 0))
     = Inr (Fin (1 / 4), 1)
   \<and> submit strict_model 1 ''TRANSFER'' (Fin 50000) (Fin 100000) (Fin 50000) (Fin 0) (Fin 0) =
       Inr [St_divider,
            St_error [Lit ''FRAUD DITEMUKAN! ('', Str ''TRANSFER'', Lit '' sebesar Rp '',
                      Num '',.0f'' (PyFloat (Fin 50000)), Lit '')''],
            St_header [Lit ''Tingkat Risiko: '', Num ''.2%'' (PyFloat (Fin (1 / 4)))],
            St_subheader [Lit ''Tindakan: Blokir Transaksi dan Lakukan Investigasi.''],
            St_markdown [Lit ''**Indikator Utama (Error Balance):**'',
                         Lit ''* Error Origin: `'', Num ''.2f'' (PyFloat (Fin 0)), Lit ''`'',
                         Lit ''* Error Destination: `'', Num ''.2f'' (PyFloat (Fin 50000)), Lit ''`'']]
   \<and> evaluate lenient_model
     (preprocess_input 1 ''TRANSFER'' (Fin 50000) (Fin 100000) (Fin 50000) (Fin 0) (Fin 0))
     = Inr (Fin (3 / 4), 0)
   \<and> submit lenient_model 1 ''TRANSFER'' (Fin 50000) (Fin 100000) (Fin 50000) (Fin 0) (Fin 0) =
       Inr [St_divider,
            St_success [Lit ''Transaksi DIIZINKAN. ('', Str ''TRANSFER'', Lit '' sebesar Rp '',
                        Num '',.0f'' (PyFloat (Fin 50000)), Lit '')''],
            St_header [Lit ''Tingkat Risiko: '', Num ''.2%'' (PyFloat (Fin (3 / 4)))],
            St_subheader [Lit ''Tindakan: Lanjutkan Transaksi.''],
            St_info [Lit ''Risiko dianggap rendah berdasarkan pola fitur Error Balance yang normal.'']]"
  using decision_display [of strict_model 1 "''TRANSFER''" "Fin 50000" "Fin 100000" "Fin 50000"
          "Fin 0" "Fin 0" "Fin (1 / 4)" 1]
        decision_display [of lenient_model 1 "''TRANSFER''" "Fin 50000" "Fin 100000" "Fin 50000"
          "Fin 0" "Fin 0" "Fin (3 / 4)" 0]
  by (auto simp add: evaluate_examples preprocess_input_frame fsub_def f64_round_whole_cases)

section \<open>Determinism\<close>

text \<open>
  The handler with the world made explicit is the handler \<open>submit\<close> run on the loaded
  model, its widgets added to the page.
\<close>

lemma submit_call_submit:
  "submit_call step type_input amount old_bal_orig new_bal_orig old_bal_dest new_bal_dest w =
     (case submit (loaded_model w) step type_input amount old_bal_orig new_bal_orig
             old_bal_dest new_bal_dest of
        Inl e \<Rightarrow> (Some e, w)
      | Inr widgets \<Rightarrow> (None, w\<lparr>page := page w @ widgets\<rparr>))"
  by (simp add: submit_call_def preprocess_input_call_def submit_def split: sum.splits prod.splits)




section \<open>The sentinels in the receiver discrepancy\<close>

lemma sentinels_cancel:
  assumes "is_f64 a" and "is_f64 (a - 1)"
  shows "fsub (fadd (Fin (- 1)) (Fin a)) (Fin (- 1)) = Fin a"
proof -
  have "fadd (Fin (- 1)) (Fin a) = Fin (a - 1)"
    using assms(2) by (simp add: is_f64_def)
  then show ?thesis
    using assms(1) by (simp add: fsub_def is_f64_def)
qed

text \<open>
  C10, as amended. When the imputation triggers, errorBalanceDest is the float result of
  \<open>(-1.0 + amount) - (-1.0)\<close>. It is exactly the amount whenever \<open>amount - 1\<close> is
  itself a binary64 value, so that the first addition does not round; this is so for
  every binary64 amount from 0.5 to \<open>2\<^sup>5\<^sup>3\<close>.
\<close>

theorem imputed_error_is_amount:
  "is_f64 a \<Longrightarrow> a \<noteq> 0 \<Longrightarrow> is_f64 (a - 1) \<or> (1 / 2 \<le> a \<and> a \<le> 2 ^ 53) \<Longrightarrow>
   map_of (preprocess_input step type_input (Fin a) old_bal_orig new_bal_orig (Fin 0) (Fin 0))
     ''errorBalanceDest'' = Some (PyFloat (Fin a))"
  using is_f64_pred [of a]
  by (auto simp add: preprocess_input_frame sentinels_cancel simp del: fadd.simps)

text \<open>The amount 50000 of the spec's scenarios is such a value.\<close>

lemma is_f64_50000: "is_f64 50000"
  unfolding is_f64_def by code_simp

theorem imputed_error_is_amount_witness:
  "is_f64 50000 \<and> (50000::rat) \<noteq> 0 \<and> (1 / 2 \<le> (50000::rat) \<and> (50000::rat) \<le> 2 ^ 53)
   \<and> map_of (preprocess_input 1 ''TRANSFER'' (Fin 50000) (Fin 100000) (Fin 50000) (Fin 0) (Fin 0))
     ''errorBalanceDest'' = Some (PyFloat (Fin 50000))"
  using imputed_error_is_amount [of 50000 1 "''TRANSFER''" "Fin 100000" "Fin 50000"] is_f64_50000
  by simp

text \<open>
  C10 as stated fails for the amount 0.1, the binary64 value
  \<open>3602879701896397 / 2\<^sup>5\<^sup>5\<close>: the imputation triggers, \<open>-1.0 + 0.1\<close> rounds to
  \<open>-0.9\<close>, and errorBalanceDest is \<open>900719925474099 / 2\<^sup>5\<^sup>3\<close>, which Python prints
  as 0.09999999999999998, not the amount.
\<close>

theorem imputed_error_is_amount_counterexample:
  "is_f64 (3602879701896397 / 36028797018963968)
   \<and> Fin (3602879701896397 / 36028797018963968) \<noteq> Fin 0
   \<and> map_of (preprocess_input 1 ''TRANSFER'' (Fin (3602879701896397 / 36028797018963968))
               (Fin 100000) (Fin 50000) (Fin 0) (Fin 0)) ''errorBalanceDest''
       = Some (PyFloat (Fin (900719925474099 / 9007199254740992)))
   \<and> Fin (900719925474099 / 9007199254740992) \<noteq> Fin (3602879701896397 / 36028797018963968)"
proof -
  have a: "f64_round (3602879701896397 / 36028797018963968)
             = Fin (3602879701896397 / 36028797018963968)"
    by code_simp
  have b: "fsub (fadd (Fin (- 1)) (Fin (3602879701896397 / 36028797018963968))) (Fin (- 1))
             = Fin (900719925474099 / 9007199254740992)"
    by code_simp
  show ?thesis
    by (simp add: preprocess_input_frame is_f64_def a b del: fadd.simps)
qed

end
